theory Spec2Isabelle
  imports Main
begin

section \<open>JavaScript values\<close>

text \<open>
  The values that flow through \<^verbatim>\<open>plugin_loader.ts\<close> are typed \<^verbatim>\<open>any\<close> where they
  come out of the module loader, so they are modelled as a datatype of JavaScript
  values. \<open>JObj\<close> lists the properties that can be read from an object, own or
  inherited; \<open>JFun\<close> is a function or class, named and otherwise opaque. Numbers are
  integers (\<^verbatim>\<open>NaN\<close> is left out). An object with a callable \<^verbatim>\<open>then\<close> property is a
  thenable: what its \<^verbatim>\<open>then\<close> does when a promise adopts it is not part of the value,
  it is given by the collaborator \<open>adoptThenable\<close> below.
\<close>

datatype jsval =
    JUndefined
  | JNull
  | JBool bool
  | JNum int
  | JStr string
  | JFun string
  | JObj "(string \<times> jsval) list"

datatype js_error =
    Error string
  | TypeError string

text \<open>What \<^verbatim>\<open>if (v)\<close>, \<^verbatim>\<open>v && ...\<close> and \<^verbatim>\<open>v ? a : b\<close> test.\<close>

fun truthy :: "jsval \<Rightarrow> bool" where
  "truthy JUndefined = False"
| "truthy JNull = False"
| "truthy (JBool b) = b"
| "truthy (JNum n) = (n \<noteq> 0)"
| "truthy (JStr s) = (s \<noteq> [])"
| "truthy (JFun f) = True"
| "truthy (JObj fs) = True"

text \<open>
  The property read \<^verbatim>\<open>v.k\<close>: a \<^verbatim>\<open>TypeError\<close> on \<^verbatim>\<open>undefined\<close> and \<^verbatim>\<open>null\<close>,
  \<^verbatim>\<open>undefined\<close> for a property that is not there. None of the names this file reads
  (\<^verbatim>\<open>__useDefault\<close>, \<^verbatim>\<open>default\<close>, \<^verbatim>\<open>plugin\<close>, \<^verbatim>\<open>Datasource\<close>, \<^verbatim>\<open>init\<close>,
  \<^verbatim>\<open>setComponentsFromLegacyExports\<close>) is a property of a boolean, number, string or
  plain function.
\<close>

fun get_prop :: "jsval \<Rightarrow> string \<Rightarrow> js_error + jsval" where
  "get_prop JUndefined k = Inl (TypeError (''Cannot read properties of undefined, reading '' @ k))"
| "get_prop JNull k = Inl (TypeError (''Cannot read properties of null, reading '' @ k))"
| "get_prop (JObj fs) k = Inr (case map_of fs k of None \<Rightarrow> JUndefined | Some v \<Rightarrow> v)"
| "get_prop (JBool b) k = Inr JUndefined"
| "get_prop (JNum n) k = Inr JUndefined"
| "get_prop (JStr s) k = Inr JUndefined"
| "get_prop (JFun f) k = Inr JUndefined"

text \<open>
  The file is an ECMAScript module, hence strict code: the property write \<^verbatim>\<open>v.k = x\<close>
  throws a \<^verbatim>\<open>TypeError\<close> on a primitive value.
\<close>

fun is_primitive :: "jsval \<Rightarrow> bool" where
  "is_primitive (JFun f) = False"
| "is_primitive (JObj fs) = False"
| "is_primitive v = True"

fun is_callable :: "jsval \<Rightarrow> bool" where
  "is_callable (JFun f) = True"
| "is_callable v = False"

text \<open>
  What the resolve function of a promise tests: the value is an object or function
  and reading \<^verbatim>\<open>then\<close> from it gives something callable.
\<close>

definition is_thenable :: "jsval \<Rightarrow> bool" where
  "is_thenable v =
     (\<not> is_primitive v \<and>
      (case get_prop v ''then'' of Inl e \<Rightarrow> False | Inr t \<Rightarrow> is_callable t))"

text \<open>
  Resolving a promise with a value, as \<^verbatim>\<open>return v\<close> does in a \<^verbatim>\<open>.then\<close> callback: a
  thenable is adopted, so the promise settles as \<open>adopt v\<close> says (fulfilled with the
  value the thenable hands over, or rejected); any other value fulfils the promise.
\<close>

definition promise_resolve :: "(jsval \<Rightarrow> js_error + jsval) \<Rightarrow> jsval \<Rightarrow> js_error + jsval" where
  "promise_resolve adopt v = (if is_thenable v then adopt v else Inr v)"

section \<open>Data model\<close>

text \<open>The object handed to \<^verbatim>\<open>registerPluginInCache\<close> and found by \<^verbatim>\<open>getPluginFromCache\<close>.\<close>

record CachedPlugin =
  cp_path :: string
  cp_version :: string
  cp_isAngular :: "bool option"

text \<open>The argument of \<^verbatim>\<open>importPluginModule\<close>; \<^verbatim>\<open>version\<close> and \<^verbatim>\<open>isAngular\<close> are optional.\<close>

record PluginImportRequest =
  req_path :: string
  req_pluginId :: string
  req_version :: "string option"
  req_isAngular :: "bool option"

text \<open>
  The fields of the plugin metadata that this file reads: \<^verbatim>\<open>meta.module\<close>,
  \<^verbatim>\<open>meta.info?.version\<close>, \<^verbatim>\<open>meta.angular?.detected\<close> and \<^verbatim>\<open>meta.id\<close>.
\<close>

record PluginMetaInfo =
  info_version :: string

record AngularMeta =
  angular_detected :: bool

record PluginMeta =
  meta_id :: string
  meta_module :: string
  meta_info :: "PluginMetaInfo option"
  meta_angular :: "AngularMeta option"

text \<open>
  An entry of \<^verbatim>\<open>builtInPlugins\<close>: a bundled module object (given by its exports) or an
  async factory, given by what awaiting its call yields. Both are truthy. The bundled
  modules are the application's own plugins; none of them exports a \<^verbatim>\<open>then\<close>.
\<close>

datatype builtin =
    StaticModule "(string \<times> jsval) list"
  | AsyncFactory "js_error + jsval"

text \<open>
  The classes \<^verbatim>\<open>DataSourcePlugin\<close> and \<^verbatim>\<open>AppPlugin\<close> come from \<^verbatim>\<open>@grafana/data\<close>. A
  plugin object is represented by where it came from, the metadata stamped on it and
  the method calls it received, in order.
\<close>

datatype plugin_source =
    Exported jsval
  | New_DataSourcePlugin jsval
  | New_AppPlugin

datatype method_call =
    Call_init PluginMeta
  | Call_setComponentsFromLegacyExports jsval

record plugin =
  plugin_origin :: plugin_source
  plugin_meta :: "PluginMeta option"
  plugin_calls :: "method_call list"

section \<open>Collaborators and the state\<close>

text \<open>
  The functions this file imports from other modules are parameters of the model. The
  plugin cache is a state of some type \<open>'c\<close> that \<^verbatim>\<open>registerPluginInCache\<close> updates
  and \<^verbatim>\<open>getPluginFromCache\<close> reads. An asynchronous collaborator is given by what
  awaiting it yields: \<open>Inl\<close> is a rejection. \<open>adoptThenable\<close> is the runtime's side of
  a promise adopting a thenable that a module supplied: what the promise settles with
  once the thenable's \<^verbatim>\<open>then\<close> has been called.
\<close>

record 'c collaborators =
  getPluginFromCache :: "'c \<Rightarrow> string \<Rightarrow> CachedPlugin option"
  registerPluginInCache :: "CachedPlugin \<Rightarrow> 'c \<Rightarrow> 'c"
  isHostedOnCDN :: "string \<Rightarrow> bool"
  builtInPlugins :: "string \<Rightarrow> builtin option"
  resolveModulePath :: "string \<Rightarrow> string"
  isFrontendSandboxSupported :: "bool option \<Rightarrow> string \<Rightarrow> js_error + bool"
  importPluginModuleInSandbox :: "string \<Rightarrow> js_error + jsval"
  originalImport :: "string \<Rightarrow> js_error + jsval"
  adoptThenable :: "jsval \<Rightarrow> js_error + jsval"

text \<open>Every call that leaves this file is recorded, oldest first.\<close>

datatype call =
    Call_registerPluginInCache CachedPlugin
  | Call_builtIn string
  | Call_resolveModulePath string
  | Call_isFrontendSandboxSupported "bool option" string
  | Call_importPluginModuleInSandbox string
  | Call_SystemJS_import string

record 'c world =
  pluginCache :: 'c
  trace :: "call list"

definition record_call :: "call \<Rightarrow> 'c world \<Rightarrow> 'c world" where
  "record_call c w = w\<lparr>trace := trace w @ [c]\<rparr>"

fun is_loader_call :: "call \<Rightarrow> bool" where
  "is_loader_call (Call_resolveModulePath p) = True"
| "is_loader_call (Call_SystemJS_import p) = True"
| "is_loader_call c = False"

fun is_sandbox_call :: "call \<Rightarrow> bool" where
  "is_sandbox_call (Call_isFrontendSandboxSupported a i) = True"
| "is_sandbox_call (Call_importPluginModuleInSandbox i) = True"
| "is_sandbox_call c = False"

fun is_sandbox_import :: "call \<Rightarrow> bool" where
  "is_sandbox_import (Call_importPluginModuleInSandbox i) = True"
| "is_sandbox_import c = False"

fun is_register_call :: "call \<Rightarrow> bool" where
  "is_register_call (Call_registerPluginInCache e) = True"
| "is_register_call c = False"

fun is_module_import :: "call \<Rightarrow> bool" where
  "is_module_import (Call_builtIn p) = True"
| "is_module_import (Call_importPluginModuleInSandbox i) = True"
| "is_module_import (Call_SystemJS_import p) = True"
| "is_module_import c = False"

text \<open>The calls a step added to the trace.\<close>

definition new_calls :: "'c world \<Rightarrow> 'c world \<Rightarrow> call list" where
  "new_calls w w' = drop (length (trace w)) (trace w')"

section \<open>The loader hooks\<close>

text \<open>
  \<^verbatim>\<open>systemJSPrototype.shouldFetch\<close> (lines 33 to 37): \<^verbatim>\<open>Boolean(pluginInfo?.isAngular)\<close> is
  false when there is no entry and when the entry's flag is \<^verbatim>\<open>undefined\<close>.
\<close>

definition systemJSPrototype_shouldFetch :: "'c collaborators \<Rightarrow> 'c \<Rightarrow> string \<Rightarrow> bool" where
  "systemJSPrototype_shouldFetch env c url =
     (let pluginInfo = getPluginFromCache env c url
      in isHostedOnCDN env url \<or>
         (case pluginInfo of
            None \<Rightarrow> False
          | Some p \<Rightarrow> (case cp_isAngular p of None \<Rightarrow> False | Some b \<Rightarrow> b)))"

text \<open>
  \<^verbatim>\<open>systemJSPrototype.import\<close> (lines 41 to 48). The condition is
  \<^verbatim>\<open>module && module.__useDefault\<close>: the property is read only from a truthy module.
  Both \<^verbatim>\<open>return\<close>s are inside the \<^verbatim>\<open>.then\<close> callback, so what they return resolves the
  promise the hook hands out: a thenable \<^verbatim>\<open>module.default\<close> is adopted, not delivered.
\<close>

definition useDefault_test :: "jsval \<Rightarrow> js_error + bool" where
  "useDefault_test m =
     (if truthy m
      then (case get_prop m ''__useDefault'' of Inl e \<Rightarrow> Inl e | Inr v \<Rightarrow> Inr (truthy v))
      else Inr False)"

definition systemJSPrototype_import ::
  "(jsval \<Rightarrow> js_error + jsval) \<Rightarrow> ('a \<Rightarrow> js_error + jsval) \<Rightarrow> 'a \<Rightarrow> js_error + jsval" where
  "systemJSPrototype_import adopt orig args =
     (case orig args of
        Inl e \<Rightarrow> Inl e
      | Inr m \<Rightarrow>
          (case useDefault_test m of
             Inl e \<Rightarrow> Inl e
           | Inr True \<Rightarrow>
               (case get_prop m ''default'' of
                  Inl e \<Rightarrow> Inl e
                | Inr d \<Rightarrow> promise_resolve adopt d)
           | Inr False \<Rightarrow> promise_resolve adopt m))"

text \<open>\<^verbatim>\<open>SystemJS.import\<close> at line 95 is the hooked method.\<close>

definition SystemJS_import :: "'c collaborators \<Rightarrow> string \<Rightarrow> js_error + jsval" where
  "SystemJS_import env modulePath =
     systemJSPrototype_import (adoptThenable env) (originalImport env) modulePath"

section \<open>The import functions\<close>

text \<open>
  \<^verbatim>\<open>importPluginModule\<close> (lines 63 to 96). \<^verbatim>\<open>if (version)\<close> at line 74 tests
  truthiness: \<^verbatim>\<open>undefined\<close> and the empty string are falsy.
\<close>

definition importPluginModule ::
  "'c collaborators \<Rightarrow> PluginImportRequest \<Rightarrow> 'c world \<Rightarrow> (js_error + jsval) \<times> 'c world" where
  "importPluginModule env req w =
     (let path = req_path req;
          w1 = (case req_version req of
                  None \<Rightarrow> w
                | Some version \<Rightarrow>
                    if version = [] then w
                    else (let entry = \<lparr>cp_path = path, cp_version = version,
                                        cp_isAngular = req_isAngular req\<rparr>
                          in record_call (Call_registerPluginInCache entry)
                               (w\<lparr>pluginCache := registerPluginInCache env entry (pluginCache w)\<rparr>)))
      in case builtInPlugins env path of
           Some (AsyncFactory r) \<Rightarrow> (r, record_call (Call_builtIn path) w1)
         | Some (StaticModule exports) \<Rightarrow> (Inr (JObj exports), w1)
         | None \<Rightarrow>
             (let modulePath = resolveModulePath env path;
                  w2 = record_call (Call_resolveModulePath path) w1;
                  w3 = record_call
                         (Call_isFrontendSandboxSupported (req_isAngular req) (req_pluginId req)) w2
              in case isFrontendSandboxSupported env (req_isAngular req) (req_pluginId req) of
                   Inl e \<Rightarrow> (Inl e, w3)
                 | Inr True \<Rightarrow>
                     (importPluginModuleInSandbox env (req_pluginId req),
                      record_call (Call_importPluginModuleInSandbox (req_pluginId req)) w3)
                 | Inr False \<Rightarrow>
                     (SystemJS_import env modulePath,
                      record_call (Call_SystemJS_import modulePath) w3)))"

text \<open>The request both adapters build from the metadata (lines 99 to 104, 127 to 132).\<close>

definition request_of_meta :: "PluginMeta \<Rightarrow> PluginImportRequest" where
  "request_of_meta m =
     \<lparr>req_path = meta_module m,
      req_pluginId = meta_id m,
      req_version = map_option info_version (meta_info m),
      req_isAngular = map_option angular_detected (meta_angular m)\<rparr>"

text \<open>The callback of \<^verbatim>\<open>importDataSourcePlugin\<close> (lines 104 to 123).\<close>

definition missing_export_message :: string where
  "missing_export_message = ''Plugin module is missing DataSourcePlugin or Datasource constructor export''"

definition importDataSourcePlugin_then :: "PluginMeta \<Rightarrow> jsval \<Rightarrow> js_error + plugin" where
  "importDataSourcePlugin_then m pluginExports =
     (case get_prop pluginExports ''plugin'' of
        Inl e \<Rightarrow> Inl e
      | Inr p \<Rightarrow>
          if truthy p
          then (if is_primitive p
                then Inl (TypeError ''Cannot create property meta'')
                else Inr \<lparr>plugin_origin = Exported p, plugin_meta = Some m, plugin_calls = []\<rparr>)
          else (case get_prop pluginExports ''Datasource'' of
                  Inl e \<Rightarrow> Inl e
                | Inr d \<Rightarrow>
                    if truthy d
                    then Inr \<lparr>plugin_origin = New_DataSourcePlugin d, plugin_meta = Some m,
                              plugin_calls = [Call_setComponentsFromLegacyExports pluginExports]\<rparr>
                    else Inl (Error missing_export_message)))"

definition importDataSourcePlugin ::
  "'c collaborators \<Rightarrow> PluginMeta \<Rightarrow> 'c world \<Rightarrow> (js_error + plugin) \<times> 'c world" where
  "importDataSourcePlugin env m w =
     (case importPluginModule env (request_of_meta m) w of
        (Inl e, w') \<Rightarrow> (Inl e, w')
      | (Inr pluginExports, w') \<Rightarrow> (importDataSourcePlugin_then m pluginExports, w'))"

text \<open>
  The callback of \<^verbatim>\<open>importAppPlugin\<close> (lines 132 to 138). On an exported object the two
  methods must be callable properties of it; a call to one is recorded on the object.
\<close>

definition importAppPlugin_then :: "PluginMeta \<Rightarrow> jsval \<Rightarrow> js_error + plugin" where
  "importAppPlugin_then m pluginExports =
     (case get_prop pluginExports ''plugin'' of
        Inl e \<Rightarrow> Inl e
      | Inr p \<Rightarrow>
          if truthy p
          then (case get_prop p ''init'' of
                  Inl e \<Rightarrow> Inl e
                | Inr i \<Rightarrow>
                    if \<not> is_callable i then Inl (TypeError ''plugin.init is not a function'')
                    else if is_primitive p then Inl (TypeError ''Cannot create property meta'')
                    else (case get_prop p ''setComponentsFromLegacyExports'' of
                            Inl e \<Rightarrow> Inl e
                          | Inr s \<Rightarrow>
                              if \<not> is_callable s
                              then Inl (TypeError ''plugin.setComponentsFromLegacyExports is not a function'')
                              else Inr \<lparr>plugin_origin = Exported p, plugin_meta = Some m,
                                        plugin_calls = [Call_init m,
                                          Call_setComponentsFromLegacyExports pluginExports]\<rparr>))
          else Inr \<lparr>plugin_origin = New_AppPlugin, plugin_meta = Some m,
                    plugin_calls = [Call_init m,
                      Call_setComponentsFromLegacyExports pluginExports]\<rparr>)"

definition importAppPlugin ::
  "'c collaborators \<Rightarrow> PluginMeta \<Rightarrow> 'c world \<Rightarrow> (js_error + plugin) \<times> 'c world" where
  "importAppPlugin env m w =
     (case importPluginModule env (request_of_meta m) w of
        (Inl e, w') \<Rightarrow> (Inl e, w')
      | (Inr pluginExports, w') \<Rightarrow> (importAppPlugin_then m pluginExports, w'))"

section \<open>Concrete scenarios\<close>

text \<open>
  A small environment on which the functions above are evaluated: the cache is a list
  of entries, newest first, found by path; one URL is on the CDN; every thenable hands
  over the number 42; the registry, the sandbox check and the loader's own import are
  given per scenario.
\<close>

definition settles_with :: "jsval \<Rightarrow> jsval \<Rightarrow> js_error + jsval" where
  "settles_with r v = Inr r"

definition demo_collaborators ::
  "(string \<Rightarrow> builtin option) \<Rightarrow> (bool option \<Rightarrow> string \<Rightarrow> js_error + bool) \<Rightarrow>
   (string \<Rightarrow> js_error + jsval) \<Rightarrow> CachedPlugin list collaborators" where
  "demo_collaborators registry sandbox orig =
     \<lparr>getPluginFromCache = (\<lambda>c url. find (\<lambda>e. cp_path e = url) c),
      registerPluginInCache = (\<lambda>e c. e # c),
      isHostedOnCDN = (\<lambda>url. url = ''https://cdn/a.js''),
      builtInPlugins = registry,
      resolveModulePath = (\<lambda>p. ''/public/'' @ p),
      isFrontendSandboxSupported = sandbox,
      importPluginModuleInSandbox = (\<lambda>i. Inr (JObj [(''sandboxed'', JStr i)])),
      originalImport = orig,
      adoptThenable = settles_with (JNum 42)\<rparr>"

definition empty_world :: "CachedPlugin list world" where
  "empty_world = \<lparr>pluginCache = [], trace = []\<rparr>"

definition demo_request :: "string option \<Rightarrow> bool option \<Rightarrow> PluginImportRequest" where
  "demo_request version isAngular =
     \<lparr>req_path = ''p/m'', req_pluginId = ''ds'', req_version = version,
      req_isAngular = isAngular\<rparr>"

definition demo_meta :: PluginMeta where
  "demo_meta =
     \<lparr>meta_id = ''ds'', meta_module = ''p/m'', meta_info = Some \<lparr>info_version = ''1.0''\<rparr>,
      meta_angular = None\<rparr>"

definition no_builtIns :: "string \<Rightarrow> builtin option" where
  "no_builtIns p = None"

definition sandbox_off :: "bool option \<Rightarrow> string \<Rightarrow> js_error + bool" where
  "sandbox_off a i = Inr False"

definition sandbox_on :: "bool option \<Rightarrow> string \<Rightarrow> js_error + bool" where
  "sandbox_on a i = Inr True"

definition sandbox_unless_angular :: "bool option \<Rightarrow> string \<Rightarrow> js_error + bool" where
  "sandbox_unless_angular a i = Inr (a \<noteq> Some True)"

definition sandbox_broken :: "bool option \<Rightarrow> string \<Rightarrow> js_error + bool" where
  "sandbox_broken a i = Inl (Error ''no realm'')"

definition loads :: "jsval \<Rightarrow> string \<Rightarrow> js_error + jsval" where
  "loads v url = Inr v"

text \<open>Modules as the loader may hand them over.\<close>

definition legacy_exports :: jsval where
  "legacy_exports = JObj [(''Datasource'', JFun ''LegacyDatasource''), (''ConfigCtrl'', JFun ''Ctrl'')]"

definition both_exports :: jsval where
  "both_exports =
     JObj [(''plugin'', JObj [(''id'', JStr ''prebuilt'')]), (''Datasource'', JFun ''LegacyDatasource'')]"

definition other_exports :: jsval where
  "other_exports = JObj [(''helper'', JNum 1)]"

definition wrapped_exports :: jsval where
  "wrapped_exports = JObj [(''__useDefault'', JBool True), (''default'', JStr ''payload'')]"

definition thenable_default_exports :: jsval where
  "thenable_default_exports =
     JObj [(''__useDefault'', JBool True), (''default'', JObj [(''then'', JFun ''f'')])]"

definition one_builtIn :: "string \<Rightarrow> builtin option" where
  "one_builtIn p = (if p = ''p/m'' then Some (AsyncFactory (Inr other_exports)) else None)"

section \<open>Facts about the trace\<close>

lemmas demo_defs =
  demo_collaborators_def empty_world_def demo_request_def demo_meta_def no_builtIns_def
  sandbox_off_def sandbox_on_def sandbox_unless_angular_def sandbox_broken_def loads_def
  legacy_exports_def both_exports_def other_exports_def wrapped_exports_def one_builtIn_def
  settles_with_def thenable_default_exports_def

lemmas eval_defs =
  importPluginModule_def Let_def record_call_def new_calls_def request_of_meta_def
  SystemJS_import_def systemJSPrototype_import_def useDefault_test_def
  promise_resolve_def is_thenable_def


lemma importPluginModule_extends_trace:
  "\<exists>cs. trace (snd (importPluginModule env req w)) = trace w @ cs"
  by (auto simp: importPluginModule_def Let_def record_call_def
      split: option.splits builtin.splits sum.splits bool.splits)

lemma importPluginModule_one_import:
  "length (filter is_module_import (new_calls w (snd (importPluginModule env req w)))) \<le> 1"
  by (auto simp: importPluginModule_def Let_def record_call_def new_calls_def
      split: option.splits builtin.splits sum.splits bool.splits)

section \<open>The fetch policy\<close>

text \<open>
  Claim C1. \<^verbatim>\<open>shouldFetch\<close> answers true (fetch as text and evaluate) exactly when the
  URL is hosted on the CDN or the cache entry found for the URL has \<^verbatim>\<open>isAngular = true\<close>.
  With no cache entry the answer is that of \<^verbatim>\<open>isHostedOnCDN\<close>, and a CDN-hosted URL
  is fetched whatever the cache holds.
\<close>

theorem shouldFetch_policy:
  "(systemJSPrototype_shouldFetch env c url \<longleftrightarrow>
      isHostedOnCDN env url \<or>
      (\<exists>p. getPluginFromCache env c url = Some p \<and> cp_isAngular p = Some True))
   \<and> (getPluginFromCache env c url = None \<longrightarrow>
        systemJSPrototype_shouldFetch env c url = isHostedOnCDN env url)
   \<and> (isHostedOnCDN env url \<longrightarrow> (\<forall>c'. systemJSPrototype_shouldFetch env c' url))"
  by (auto simp: systemJSPrototype_shouldFetch_def split: option.splits)

theorem shouldFetch_policy_witness:
  "isHostedOnCDN (demo_collaborators no_builtIns sandbox_off (loads JNull)) ''https://cdn/a.js''
   \<and> systemJSPrototype_shouldFetch (demo_collaborators no_builtIns sandbox_off (loads JNull))
        [] ''https://cdn/a.js''
   \<and> getPluginFromCache (demo_collaborators no_builtIns sandbox_off (loads JNull)) [] ''p/m'' = None
   \<and> \<not> systemJSPrototype_shouldFetch (demo_collaborators no_builtIns sandbox_off (loads JNull))
        [] ''p/m''"
  using shouldFetch_policy [of "demo_collaborators no_builtIns sandbox_off (loads JNull)" "[]"
      "''https://cdn/a.js''"]
    shouldFetch_policy [of "demo_collaborators no_builtIns sandbox_off (loads JNull)" "[]" "''p/m''"]
  by (simp add: demo_collaborators_def)

section \<open>The import hook\<close>

text \<open>
  Claim C6, amended. Let the underlying import resolve to a module value \<open>m\<close>. If \<open>m\<close>
  carries a truthy \<^verbatim>\<open>__useDefault\<close> marker, reading \<^verbatim>\<open>m.default\<close> does not throw, and
  the hooked import resolves to exactly that value when it is not a thenable; when it
  is a thenable the promise adopts it and settles as the thenable does. If \<open>m\<close>
  carries no truthy marker (which includes \<^verbatim>\<open>undefined\<close> and \<^verbatim>\<open>null\<close>, from which
  nothing is read), the hooked import resolves to \<open>m\<close> itself when \<open>m\<close> is not a
  thenable, as the value of a fulfilled promise is not; a thenable would be adopted
  here too.
\<close>

theorem import_hook_useDefault:
  assumes "orig args = Inr m"
  shows "(\<forall>v. get_prop m ''__useDefault'' = Inr v \<and> truthy v \<longrightarrow>
            (\<exists>d. get_prop m ''default'' = Inr d
               \<and> systemJSPrototype_import adopt orig args =
                   (if is_thenable d then adopt d else Inr d)))
       \<and> ((\<forall>v. get_prop m ''__useDefault'' = Inr v \<longrightarrow> \<not> truthy v) \<longrightarrow>
            systemJSPrototype_import adopt orig args =
              (if is_thenable m then adopt m else Inr m))"
  using assms
  by (cases m)
    (auto simp: systemJSPrototype_import_def useDefault_test_def promise_resolve_def
      split: option.splits)

theorem import_hook_useDefault_witness:
  "loads wrapped_exports ''u'' = Inr wrapped_exports
   \<and> get_prop wrapped_exports ''__useDefault'' = Inr (JBool True)
   \<and> get_prop wrapped_exports ''default'' = Inr (JStr ''payload'')
   \<and> \<not> is_thenable (JStr ''payload'')
   \<and> systemJSPrototype_import (settles_with (JNum 42)) (loads wrapped_exports) ''u'' =
        Inr (JStr ''payload'')
   \<and> loads other_exports ''u'' = Inr other_exports
   \<and> get_prop other_exports ''__useDefault'' = Inr JUndefined
   \<and> \<not> is_thenable other_exports
   \<and> systemJSPrototype_import (settles_with (JNum 42)) (loads other_exports) ''u'' =
        Inr other_exports"
proof -
  have a: "loads wrapped_exports ''u'' = Inr wrapped_exports" by (simp add: loads_def)
  have b: "loads other_exports ''u'' = Inr other_exports" by (simp add: loads_def)
  have g1: "get_prop wrapped_exports ''__useDefault'' = Inr (JBool True)"
    by (simp add: wrapped_exports_def)
  have g2: "get_prop wrapped_exports ''default'' = Inr (JStr ''payload'')"
    by (simp add: wrapped_exports_def)
  have g3: "get_prop other_exports ''__useDefault'' = Inr JUndefined"
    by (simp add: other_exports_def)
  have t1: "\<not> is_thenable (JStr ''payload'')"
    by (simp add: is_thenable_def)
  have t2: "\<not> is_thenable other_exports"
    by (simp add: is_thenable_def other_exports_def)
  have r1: "systemJSPrototype_import (settles_with (JNum 42)) (loads wrapped_exports) ''u'' =
      Inr (JStr ''payload'')"
    using import_hook_useDefault [where orig = "loads wrapped_exports" and args = "''u''"
        and adopt = "settles_with (JNum 42)", OF a]
      g1 g2 t1 by simp
  have r2: "systemJSPrototype_import (settles_with (JNum 42)) (loads other_exports) ''u'' =
      Inr other_exports"
    using import_hook_useDefault [where orig = "loads other_exports" and args = "''u''"
        and adopt = "settles_with (JNum 42)", OF b]
      g3 t2 by simp
  show ?thesis using a b g1 g2 g3 t1 t2 r1 r2 by simp
qed

text \<open>
  Claim C6 as stated has the hooked import resolve to exactly the value of the
  \<^verbatim>\<open>default\<close> field for every marked module. The module
  \<^verbatim>\<open>{__useDefault: true, default: {then: f}}\<close>, where \<^verbatim>\<open>f\<close> hands over 42, is marked; line
  44 returns its \<^verbatim>\<open>default\<close> from the \<^verbatim>\<open>.then\<close> callback, the promise adopts it, and
  the import resolves to 42, not to the object in the \<^verbatim>\<open>default\<close> field.
\<close>

theorem import_hook_thenable_default_counterexample:
  "loads thenable_default_exports ''u'' = Inr thenable_default_exports
   \<and> get_prop thenable_default_exports ''__useDefault'' = Inr (JBool True)
   \<and> get_prop thenable_default_exports ''default'' = Inr (JObj [(''then'', JFun ''f'')])
   \<and> systemJSPrototype_import (settles_with (JNum 42)) (loads thenable_default_exports) ''u'' =
        Inr (JNum 42)
   \<and> systemJSPrototype_import (settles_with (JNum 42)) (loads thenable_default_exports) ''u'' \<noteq>
        get_prop thenable_default_exports ''default''"
  by (simp add: systemJSPrototype_import_def useDefault_test_def promise_resolve_def
      is_thenable_def loads_def thenable_default_exports_def settles_with_def)

section \<open>importPluginModule\<close>

text \<open>
  Claim C4. When the path is in the built-in registry, \<^verbatim>\<open>importPluginModule\<close> yields the
  registered module, or what awaiting the registered factory yields, and the calls it
  makes include none to \<^verbatim>\<open>resolveModulePath\<close> or \<^verbatim>\<open>SystemJS.import\<close> and none to
  \<^verbatim>\<open>isFrontendSandboxSupported\<close> or \<^verbatim>\<open>importPluginModuleInSandbox\<close>.
\<close>

theorem importPluginModule_builtIn:
  assumes "builtInPlugins env (req_path req) = Some b"
  shows "fst (importPluginModule env req w) =
           (case b of StaticModule exports \<Rightarrow> Inr (JObj exports) | AsyncFactory r \<Rightarrow> r)
       \<and> filter is_loader_call (new_calls w (snd (importPluginModule env req w))) = []
       \<and> filter is_sandbox_call (new_calls w (snd (importPluginModule env req w))) = []"
  using assms
  by (auto simp: importPluginModule_def Let_def record_call_def new_calls_def
      split: option.splits builtin.splits)

theorem importPluginModule_builtIn_witness:
  "builtInPlugins (demo_collaborators one_builtIn sandbox_on (loads legacy_exports))
     (req_path (demo_request (Some ''1.0'') None)) = Some (AsyncFactory (Inr other_exports))
   \<and> fst (importPluginModule (demo_collaborators one_builtIn sandbox_on (loads legacy_exports))
          (demo_request (Some ''1.0'') None) empty_world) = Inr other_exports
   \<and> trace (snd (importPluginModule (demo_collaborators one_builtIn sandbox_on (loads legacy_exports))
          (demo_request (Some ''1.0'') None) empty_world)) =
        [Call_registerPluginInCache \<lparr>cp_path = ''p/m'', cp_version = ''1.0'', cp_isAngular = None\<rparr>,
         Call_builtIn ''p/m'']"
proof -
  let ?E = "demo_collaborators one_builtIn sandbox_on (loads legacy_exports)"
  let ?r = "demo_request (Some ''1.0'') None"
  have h: "builtInPlugins ?E (req_path ?r) = Some (AsyncFactory (Inr other_exports))"
    by (simp add: demo_collaborators_def demo_request_def one_builtIn_def)
  have t: "trace (snd (importPluginModule ?E ?r empty_world)) =
        [Call_registerPluginInCache \<lparr>cp_path = ''p/m'', cp_version = ''1.0'', cp_isAngular = None\<rparr>,
         Call_builtIn ''p/m'']"
    by (simp add: eval_defs demo_defs)
  show ?thesis
    using importPluginModule_builtIn [OF h, of empty_world] h t by simp
qed

text \<open>
  Claim C5, amended. When \<^verbatim>\<open>version\<close> is a non-empty string, the first call of
  \<^verbatim>\<open>importPluginModule\<close> is \<^verbatim>\<open>registerPluginInCache\<close> with \<^verbatim>\<open>{path, version, isAngular}\<close>,
  so it precedes every resolution and import of the request, no later call registers
  again, and the cache is the old one updated with that entry. When \<^verbatim>\<open>version\<close> is
  absent or the empty string, nothing is registered and the cache is unchanged.
\<close>

theorem importPluginModule_registers_first:
  "(\<forall>v. req_version req = Some v \<and> v \<noteq> [] \<longrightarrow>
      (\<exists>rest. new_calls w (snd (importPluginModule env req w)) =
                 Call_registerPluginInCache
                   \<lparr>cp_path = req_path req, cp_version = v, cp_isAngular = req_isAngular req\<rparr> # rest
               \<and> filter is_register_call rest = [])
      \<and> pluginCache (snd (importPluginModule env req w)) =
          registerPluginInCache env
            \<lparr>cp_path = req_path req, cp_version = v, cp_isAngular = req_isAngular req\<rparr>
            (pluginCache w))
   \<and> (req_version req = None \<or> req_version req = Some [] \<longrightarrow>
        filter is_register_call (new_calls w (snd (importPluginModule env req w))) = []
        \<and> pluginCache (snd (importPluginModule env req w)) = pluginCache w)"
  by (auto simp: importPluginModule_def Let_def record_call_def new_calls_def
      split: option.splits builtin.splits sum.splits bool.splits)

theorem importPluginModule_registers_first_witness:
  "req_version (demo_request (Some ''1.0'') (Some True)) = Some ''1.0''
   \<and> new_calls empty_world
        (snd (importPluginModule (demo_collaborators no_builtIns sandbox_off (loads other_exports))
          (demo_request (Some ''1.0'') (Some True)) empty_world)) =
        [Call_registerPluginInCache
           \<lparr>cp_path = ''p/m'', cp_version = ''1.0'', cp_isAngular = Some True\<rparr>,
         Call_resolveModulePath ''p/m'', Call_isFrontendSandboxSupported (Some True) ''ds'',
         Call_SystemJS_import ''/public/p/m'']
   \<and> pluginCache
        (snd (importPluginModule (demo_collaborators no_builtIns sandbox_off (loads other_exports))
          (demo_request (Some ''1.0'') (Some True)) empty_world)) =
        [\<lparr>cp_path = ''p/m'', cp_version = ''1.0'', cp_isAngular = Some True\<rparr>]
   \<and> req_version (demo_request None (Some True)) = None
   \<and> pluginCache
        (snd (importPluginModule (demo_collaborators no_builtIns sandbox_off (loads other_exports))
          (demo_request None (Some True)) empty_world)) = []"
proof -
  let ?E = "demo_collaborators no_builtIns sandbox_off (loads other_exports)"
  have a: "req_version (demo_request (Some ''1.0'') (Some True)) = Some ''1.0''"
    by (simp add: demo_request_def)
  have b: "req_version (demo_request None (Some True)) = None"
    by (simp add: demo_request_def)
  have n: "new_calls empty_world
        (snd (importPluginModule ?E (demo_request (Some ''1.0'') (Some True)) empty_world)) =
        [Call_registerPluginInCache
           \<lparr>cp_path = ''p/m'', cp_version = ''1.0'', cp_isAngular = Some True\<rparr>,
         Call_resolveModulePath ''p/m'', Call_isFrontendSandboxSupported (Some True) ''ds'',
         Call_SystemJS_import ''/public/p/m'']"
    by (simp add: eval_defs demo_defs)
  have c1: "pluginCache (snd (importPluginModule ?E (demo_request (Some ''1.0'') (Some True)) empty_world)) =
      registerPluginInCache ?E
        \<lparr>cp_path = req_path (demo_request (Some ''1.0'') (Some True)), cp_version = ''1.0'',
          cp_isAngular = req_isAngular (demo_request (Some ''1.0'') (Some True))\<rparr>
        (pluginCache empty_world)"
    using importPluginModule_registers_first
      [of "demo_request (Some ''1.0'') (Some True)" empty_world ?E] a by simp
  have c2: "pluginCache (snd (importPluginModule ?E (demo_request None (Some True)) empty_world)) =
      pluginCache empty_world"
    using importPluginModule_registers_first
      [of "demo_request None (Some True)" empty_world ?E] b by simp
  show ?thesis
    using a b n c1 c2 by (simp add: demo_collaborators_def demo_request_def empty_world_def)
qed

text \<open>
  Claim C5 as stated asks for the registration whenever \<^verbatim>\<open>version\<close> is present. The
  request \<^verbatim>\<open>{path: 'p/m', pluginId: 'ds', version: ''}\<close> has a version, the empty string;
  line 74 tests \<^verbatim>\<open>if (version)\<close>, so the path is resolved and imported and nothing is
  registered.
\<close>

theorem importPluginModule_version_present_counterexample:
  "req_version (demo_request (Some '''') None) = Some ''''
   \<and> trace (snd (importPluginModule (demo_collaborators no_builtIns sandbox_off (loads other_exports))
          (demo_request (Some '''') None) empty_world)) =
        [Call_resolveModulePath ''p/m'', Call_isFrontendSandboxSupported None ''ds'',
         Call_SystemJS_import ''/public/p/m'']
   \<and> pluginCache (snd (importPluginModule (demo_collaborators no_builtIns sandbox_off (loads other_exports))
          (demo_request (Some '''') None) empty_world)) = []"
  by (simp add: eval_defs demo_defs)

text \<open>
  Claim C8. For a path that is not built in, when \<^verbatim>\<open>isFrontendSandboxSupported\<close> rejects
  with an error, \<^verbatim>\<open>importPluginModule\<close> rejects with that same error, and it imports
  nothing: neither \<^verbatim>\<open>SystemJS.import\<close> nor \<^verbatim>\<open>importPluginModuleInSandbox\<close> is called.
\<close>

theorem importPluginModule_sandbox_check_fails:
  assumes "builtInPlugins env (req_path req) = None"
    and "isFrontendSandboxSupported env (req_isAngular req) (req_pluginId req) = Inl e"
  shows "fst (importPluginModule env req w) = Inl e
       \<and> filter is_module_import (new_calls w (snd (importPluginModule env req w))) = []"
  using assms
  by (auto simp: importPluginModule_def Let_def record_call_def new_calls_def
      split: option.splits)

theorem importPluginModule_sandbox_check_fails_witness:
  "builtInPlugins (demo_collaborators no_builtIns sandbox_broken (loads legacy_exports))
     (req_path (demo_request None None)) = None
   \<and> isFrontendSandboxSupported (demo_collaborators no_builtIns sandbox_broken (loads legacy_exports))
       (req_isAngular (demo_request None None)) (req_pluginId (demo_request None None)) =
       Inl (Error ''no realm'')
   \<and> fst (importPluginModule (demo_collaborators no_builtIns sandbox_broken (loads legacy_exports))
          (demo_request None None) empty_world) = Inl (Error ''no realm'')
   \<and> trace (snd (importPluginModule (demo_collaborators no_builtIns sandbox_broken (loads legacy_exports))
          (demo_request None None) empty_world)) =
        [Call_resolveModulePath ''p/m'', Call_isFrontendSandboxSupported None ''ds'']"
proof -
  let ?E = "demo_collaborators no_builtIns sandbox_broken (loads legacy_exports)"
  let ?r = "demo_request None None"
  have h1: "builtInPlugins ?E (req_path ?r) = None"
    by (simp add: demo_collaborators_def no_builtIns_def)
  have h2: "isFrontendSandboxSupported ?E (req_isAngular ?r) (req_pluginId ?r) = Inl (Error ''no realm'')"
    by (simp add: demo_collaborators_def sandbox_broken_def)
  have t: "trace (snd (importPluginModule ?E ?r empty_world)) =
        [Call_resolveModulePath ''p/m'', Call_isFrontendSandboxSupported None ''ds'']"
    by (simp add: eval_defs demo_defs)
  show ?thesis
    using importPluginModule_sandbox_check_fails [OF h1 h2, of empty_world] h1 h2 t by simp
qed

text \<open>
  Claim C9, amended. For a path that is not built in, \<^verbatim>\<open>importPluginModule\<close> hands the
  request's \<^verbatim>\<open>isAngular\<close> and \<^verbatim>\<open>pluginId\<close> to \<^verbatim>\<open>isFrontendSandboxSupported\<close> and takes
  the sandbox path exactly when that check resolves to true; it has no test of
  \<^verbatim>\<open>isAngular\<close> of its own. When the check resolves to false, as it is meant to for a
  request with \<^verbatim>\<open>isAngular = true\<close>, the result is that of \<^verbatim>\<open>SystemJS.import\<close> on the
  resolved path.
\<close>

theorem importPluginModule_sandbox_routing:
  assumes "builtInPlugins env (req_path req) = None"
  shows "(list_ex is_sandbox_import (new_calls w (snd (importPluginModule env req w))) \<longleftrightarrow>
            isFrontendSandboxSupported env (req_isAngular req) (req_pluginId req) = Inr True)
       \<and> list_ex (\<lambda>c. c = Call_isFrontendSandboxSupported (req_isAngular req) (req_pluginId req))
            (new_calls w (snd (importPluginModule env req w)))
       \<and> (isFrontendSandboxSupported env (req_isAngular req) (req_pluginId req) = Inr False \<longrightarrow>
            fst (importPluginModule env req w) = SystemJS_import env (resolveModulePath env (req_path req))
            \<and> list_ex (\<lambda>c. c = Call_SystemJS_import (resolveModulePath env (req_path req)))
                (new_calls w (snd (importPluginModule env req w))))"
  using assms
  by (auto simp: importPluginModule_def Let_def record_call_def new_calls_def
      split: option.splits sum.splits bool.splits)

theorem importPluginModule_sandbox_routing_witness:
  "builtInPlugins (demo_collaborators no_builtIns sandbox_unless_angular (loads other_exports))
     (req_path (demo_request None (Some True))) = None
   \<and> isFrontendSandboxSupported (demo_collaborators no_builtIns sandbox_unless_angular (loads other_exports))
       (req_isAngular (demo_request None (Some True))) (req_pluginId (demo_request None (Some True))) =
       Inr False
   \<and> \<not> list_ex is_sandbox_import (new_calls empty_world
        (snd (importPluginModule (demo_collaborators no_builtIns sandbox_unless_angular (loads other_exports))
          (demo_request None (Some True)) empty_world)))
   \<and> fst (importPluginModule (demo_collaborators no_builtIns sandbox_unless_angular (loads other_exports))
          (demo_request None (Some True)) empty_world) = Inr other_exports"
proof -
  let ?E = "demo_collaborators no_builtIns sandbox_unless_angular (loads other_exports)"
  let ?r = "demo_request None (Some True)"
  have h: "builtInPlugins ?E (req_path ?r) = None"
    by (simp add: demo_collaborators_def no_builtIns_def)
  have s: "isFrontendSandboxSupported ?E (req_isAngular ?r) (req_pluginId ?r) = Inr False"
    by (simp add: demo_collaborators_def sandbox_unless_angular_def demo_request_def)
  have i: "SystemJS_import ?E (resolveModulePath ?E (req_path ?r)) = Inr other_exports"
    by (simp add: eval_defs demo_defs)
  show ?thesis
    using importPluginModule_sandbox_routing [OF h, of empty_world] h s i by simp
qed

text \<open>
  Claim C9 as stated holds the sandbox path closed for \<^verbatim>\<open>isAngular = true\<close> whatever the
  support check reports. With a check that reports true, the request
  \<^verbatim>\<open>{path: 'p/m', pluginId: 'ds', isAngular: true}\<close> is imported in the sandbox.
\<close>

theorem importPluginModule_angular_sandboxed_counterexample:
  "builtInPlugins (demo_collaborators no_builtIns sandbox_on (loads other_exports))
     (req_path (demo_request None (Some True))) = None
   \<and> req_isAngular (demo_request None (Some True)) = Some True
   \<and> fst (importPluginModule (demo_collaborators no_builtIns sandbox_on (loads other_exports))
          (demo_request None (Some True)) empty_world) = Inr (JObj [(''sandboxed'', JStr ''ds'')])
   \<and> trace (snd (importPluginModule (demo_collaborators no_builtIns sandbox_on (loads other_exports))
          (demo_request None (Some True)) empty_world)) =
        [Call_resolveModulePath ''p/m'', Call_isFrontendSandboxSupported (Some True) ''ds'',
         Call_importPluginModuleInSandbox ''ds'']"
  by (simp add: eval_defs demo_defs)

section \<open>importDataSourcePlugin\<close>

text \<open>
  Claim C2. Let the import yield the module \<open>pluginExports\<close>. When its \<^verbatim>\<open>plugin\<close> export
  is missing (or falsy, which the source does not tell apart) and its \<^verbatim>\<open>Datasource\<close>
  export is there (truthy, as every constructor is), \<^verbatim>\<open>importDataSourcePlugin\<close> returns
  a new \<^verbatim>\<open>DataSourcePlugin\<close> built from that constructor, on which
  \<^verbatim>\<open>setComponentsFromLegacyExports\<close> was called with the module, and whose \<^verbatim>\<open>meta\<close> is
  the metadata given.
\<close>

theorem importDataSourcePlugin_legacy_Datasource:
  assumes "importPluginModule env (request_of_meta m) w = (Inr pluginExports, w')"
    and "get_prop pluginExports ''plugin'' = Inr p" and "\<not> truthy p"
    and "get_prop pluginExports ''Datasource'' = Inr d" and "truthy d"
  shows "importDataSourcePlugin env m w =
           (Inr \<lparr>plugin_origin = New_DataSourcePlugin d, plugin_meta = Some m,
                 plugin_calls = [Call_setComponentsFromLegacyExports pluginExports]\<rparr>, w')"
  using assms by (simp add: importDataSourcePlugin_def importDataSourcePlugin_then_def)

theorem importDataSourcePlugin_legacy_Datasource_witness:
  "fst (importPluginModule (demo_collaborators no_builtIns sandbox_off (loads legacy_exports))
          (request_of_meta demo_meta) empty_world) = Inr legacy_exports
   \<and> get_prop legacy_exports ''plugin'' = Inr JUndefined
   \<and> get_prop legacy_exports ''Datasource'' = Inr (JFun ''LegacyDatasource'')
   \<and> fst (importDataSourcePlugin (demo_collaborators no_builtIns sandbox_off (loads legacy_exports))
          demo_meta empty_world) =
        Inr \<lparr>plugin_origin = New_DataSourcePlugin (JFun ''LegacyDatasource''),
             plugin_meta = Some demo_meta,
             plugin_calls = [Call_setComponentsFromLegacyExports legacy_exports]\<rparr>"
proof -
  let ?E = "demo_collaborators no_builtIns sandbox_off (loads legacy_exports)"
  let ?w' = "snd (importPluginModule ?E (request_of_meta demo_meta) empty_world)"
  have f: "fst (importPluginModule ?E (request_of_meta demo_meta) empty_world) = Inr legacy_exports"
    by (simp add: eval_defs demo_defs)
  have h1: "importPluginModule ?E (request_of_meta demo_meta) empty_world = (Inr legacy_exports, ?w')"
    using f by (simp add: prod_eq_iff)
  have h2: "get_prop legacy_exports ''plugin'' = Inr JUndefined"
    by (simp add: legacy_exports_def)
  have h3: "\<not> truthy JUndefined" by simp
  have h4: "get_prop legacy_exports ''Datasource'' = Inr (JFun ''LegacyDatasource'')"
    by (simp add: legacy_exports_def)
  have h5: "truthy (JFun ''LegacyDatasource'')" by simp
  have r: "importDataSourcePlugin ?E demo_meta empty_world =
      (Inr \<lparr>plugin_origin = New_DataSourcePlugin (JFun ''LegacyDatasource''),
             plugin_meta = Some demo_meta,
             plugin_calls = [Call_setComponentsFromLegacyExports legacy_exports]\<rparr>, ?w')"
    by (rule importDataSourcePlugin_legacy_Datasource [OF h1 h2 h3 h4 h5])
  show ?thesis
    using f h2 h4 r by simp
qed

text \<open>
  Claim C3. Let the import yield the module \<open>pluginExports\<close>. When it has neither a
  \<^verbatim>\<open>plugin\<close> nor a \<^verbatim>\<open>Datasource\<close> export (missing or falsy), \<^verbatim>\<open>importDataSourcePlugin\<close>
  rejects with the error of line 122 and returns no plugin object; the state is the
  one the single \<^verbatim>\<open>importPluginModule\<close> call left, in which at most one import was
  attempted.
\<close>

theorem importDataSourcePlugin_missing_exports:
  assumes "importPluginModule env (request_of_meta m) w = (Inr pluginExports, w')"
    and "get_prop pluginExports ''plugin'' = Inr p" and "\<not> truthy p"
    and "get_prop pluginExports ''Datasource'' = Inr d" and "\<not> truthy d"
  shows "importDataSourcePlugin env m w =
           (Inl (Error ''Plugin module is missing DataSourcePlugin or Datasource constructor export''), w')
       \<and> length (filter is_module_import (new_calls w w')) \<le> 1"
proof -
  have "importDataSourcePlugin env m w = (Inl (Error missing_export_message), w')"
    using assms by (simp add: importDataSourcePlugin_def importDataSourcePlugin_then_def)
  moreover have "length (filter is_module_import (new_calls w w')) \<le> 1"
    using importPluginModule_one_import [of w env "request_of_meta m"] assms(1) by simp
  ultimately show ?thesis by (simp add: missing_export_message_def)
qed

theorem importDataSourcePlugin_missing_exports_witness:
  "fst (importPluginModule (demo_collaborators no_builtIns sandbox_off (loads other_exports))
          (request_of_meta demo_meta) empty_world) = Inr other_exports
   \<and> get_prop other_exports ''plugin'' = Inr JUndefined
   \<and> get_prop other_exports ''Datasource'' = Inr JUndefined
   \<and> fst (importDataSourcePlugin (demo_collaborators no_builtIns sandbox_off (loads other_exports))
          demo_meta empty_world) =
        Inl (Error ''Plugin module is missing DataSourcePlugin or Datasource constructor export'')"
proof -
  let ?E = "demo_collaborators no_builtIns sandbox_off (loads other_exports)"
  let ?w' = "snd (importPluginModule ?E (request_of_meta demo_meta) empty_world)"
  have f: "fst (importPluginModule ?E (request_of_meta demo_meta) empty_world) = Inr other_exports"
    by (simp add: eval_defs demo_defs)
  have h1: "importPluginModule ?E (request_of_meta demo_meta) empty_world = (Inr other_exports, ?w')"
    using f by (simp add: prod_eq_iff)
  have h2: "get_prop other_exports ''plugin'' = Inr JUndefined"
    by (simp add: other_exports_def)
  have h3: "\<not> truthy JUndefined" by simp
  have h4: "get_prop other_exports ''Datasource'' = Inr JUndefined"
    by (simp add: other_exports_def)
  note r = importDataSourcePlugin_missing_exports [OF h1 h2 h3 h4 h3]
  show ?thesis
    using f h2 h4 r by simp
qed



section \<open>importAppPlugin\<close>

text \<open>
  Claim C7. Let the import yield the module \<open>pluginExports\<close>. When its \<^verbatim>\<open>plugin\<close> export
  is missing (or falsy), \<^verbatim>\<open>importAppPlugin\<close> returns a new \<^verbatim>\<open>AppPlugin\<close> that received
  exactly two calls, \<^verbatim>\<open>init\<close> with the metadata given and then
  \<^verbatim>\<open>setComponentsFromLegacyExports\<close> with the module, and whose \<^verbatim>\<open>meta\<close> is the metadata
  given.
\<close>

theorem importAppPlugin_default_constructed:
  assumes "importPluginModule env (request_of_meta m) w = (Inr pluginExports, w')"
    and "get_prop pluginExports ''plugin'' = Inr p" and "\<not> truthy p"
  shows "importAppPlugin env m w =
           (Inr \<lparr>plugin_origin = New_AppPlugin, plugin_meta = Some m,
                 plugin_calls = [Call_init m, Call_setComponentsFromLegacyExports pluginExports]\<rparr>, w')"
  using assms by (simp add: importAppPlugin_def importAppPlugin_then_def)

theorem importAppPlugin_default_constructed_witness:
  "fst (importPluginModule (demo_collaborators no_builtIns sandbox_off (loads other_exports))
          (request_of_meta demo_meta) empty_world) = Inr other_exports
   \<and> get_prop other_exports ''plugin'' = Inr JUndefined
   \<and> fst (importAppPlugin (demo_collaborators no_builtIns sandbox_off (loads other_exports))
          demo_meta empty_world) =
        Inr \<lparr>plugin_origin = New_AppPlugin, plugin_meta = Some demo_meta,
             plugin_calls = [Call_init demo_meta, Call_setComponentsFromLegacyExports other_exports]\<rparr>"
proof -
  let ?E = "demo_collaborators no_builtIns sandbox_off (loads other_exports)"
  let ?w' = "snd (importPluginModule ?E (request_of_meta demo_meta) empty_world)"
  have f: "fst (importPluginModule ?E (request_of_meta demo_meta) empty_world) = Inr other_exports"
    by (simp add: eval_defs demo_defs)
  have h1: "importPluginModule ?E (request_of_meta demo_meta) empty_world = (Inr other_exports, ?w')"
    using f by (simp add: prod_eq_iff)
  have h2: "get_prop other_exports ''plugin'' = Inr JUndefined"
    by (simp add: other_exports_def)
  have h3: "\<not> truthy JUndefined" by simp
  note r = importAppPlugin_default_constructed [OF h1 h2 h3]
  show ?thesis
    using f h2 r by simp
qed

end
